theory Spec2Isabelle
  imports Complex_Main "HOL-Library.Word"
begin

section \<open>JavaScript values used by the location and page-list indices\<close>

text \<open>
  Numbers. A JavaScript number is a finite value or one of the three special values.
  Finite values are kept exact (a real), so binary rounding is not part of the model;
  a zero has no sign, which is enough here because the only zero divisor the code can
  build is \<open>lastPage - firstPage\<close>, a positive zero.
\<close>

datatype jsnum = Fin real | PosInf | NegInf | NaN






text \<open>Strings. A JavaScript string is a sequence of 16-bit code units.\<close>

type_synonym js_string = "16 word list"

text \<open>
  \<open>String.prototype.trim\<close> removes the white space and line terminators of ECMAScript
  from both ends.
\<close>

definition is_ws :: "16 word \<Rightarrow> bool" where
  "is_ws c \<longleftrightarrow>
     c \<in> {0x09, 0x0A, 0x0B, 0x0C, 0x0D, 0x20, 0xA0, 0x1680, 0x2028, 0x2029, 0x202F,
          0x205F, 0x3000, 0xFEFF}
     \<or> (0x2000 \<le> c \<and> c \<le> 0x200A)"

definition trim :: "js_string \<Rightarrow> js_string" where
  "trim s = rev (dropWhile is_ws (rev (dropWhile is_ws s)))"

text \<open>The one exception the modelled code can raise by itself.\<close>

datatype js_error = TypeError

text \<open>Reading \<open>array[i]\<close>: \<open>None\<close> is \<open>undefined\<close>, the value of an index out of range.\<close>

definition js_nth :: "'a list \<Rightarrow> int \<Rightarrow> 'a option" where
  "js_nth xs i = (if 0 \<le> i \<and> i < int (length xs) then Some (xs ! nat i) else None)"


section \<open>The search routines of \<open>utils/core\<close>\<close>

text \<open>
  A comparator is \<open>EpubCFI.compare\<close>: negative, zero or positive. Its code (the CFI
  module) is not among the sources, so it is a parameter \<open>cmp\<close> of everything below,
  and a CFI is a value of an arbitrary type \<open>'c\<close>.
\<close>

type_synonym 'c comparator = "'c \<Rightarrow> 'c \<Rightarrow> int"

text \<open>
  Modelled from the spec: \<open>locationOf\<close> of \<open>utils/core\<close>, whose code is not among the
  sources. The spec: an insertion-point search that "returns insertion index assuming
  sorted ascending order, using binary search", with "a stable insertion point" when
  keys repeat. The interval \<open>start..<end\<close> is halved until it is empty; an entry that
  compares below the item lies before the insertion point.
\<close>

function locationOf_between :: "'c \<Rightarrow> 'c list \<Rightarrow> 'c comparator \<Rightarrow> nat \<Rightarrow> nat \<Rightarrow> nat" where
  "locationOf_between item array cmp start end =
     (if end \<le> start then start
      else let pivot = start + (end - start) div 2 in
        if cmp (array ! pivot) item < 0
        then locationOf_between item array cmp (pivot + 1) end
        else locationOf_between item array cmp start pivot)"
  by pat_completeness auto
termination
  by (relation "measure (\<lambda>(item, array, cmp, start, end). end - start)") auto

declare locationOf_between.simps [simp del]

definition locationOf :: "'c \<Rightarrow> 'c list \<Rightarrow> 'c comparator \<Rightarrow> int" where
  "locationOf item array cmp = int (locationOf_between item array cmp 0 (length array))"

text \<open>
  Modelled from the spec: \<open>indexOfSorted\<close> of \<open>utils/core\<close>, whose code is not among the
  sources. The spec: "a linear search (indexOfSorted: exact match returning -1 if
  absent)", which may return "any matching index" when keys repeat; this one returns
  the first.
\<close>

fun indexOfSorted_from :: "'c \<Rightarrow> 'c list \<Rightarrow> 'c comparator \<Rightarrow> int \<Rightarrow> int" where
  "indexOfSorted_from item [] cmp i = - 1"
| "indexOfSorted_from item (x # xs) cmp i =
     (if cmp x item = 0 then i else indexOfSorted_from item xs cmp (i + 1))"

definition indexOfSorted :: "'c \<Rightarrow> 'c list \<Rightarrow> 'c comparator \<Rightarrow> int" where
  "indexOfSorted item array cmp = indexOfSorted_from item array cmp 0"


section \<open>Locations: the fields and the queries\<close>

text \<open>
  The fields of a \<open>Locations\<close> object that the modelled methods read or write.
  \<open>u_locations\<close>, \<open>u_current\<close> and \<open>u_currentCfi\<close> are \<open>_locations\<close>, \<open>_current\<close> and
  \<open>_currentCfi\<close>; an empty \<open>_currentCfi\<close> (the falsy \<open>""\<close>) is \<open>None\<close>.
\<close>

record 'c Locations =
  pause :: int
  u_locations :: "'c list"
  total :: int
  break :: int
  u_current :: int
  u_currentCfi :: "'c option"

text \<open>The constructor; \<open>pause || 100\<close> replaces a missing or zero pause by 100.\<close>

definition Locations_constructor :: "int option \<Rightarrow> 'c Locations" where
  "Locations_constructor pause_arg =
     \<lparr> pause = (case pause_arg of None \<Rightarrow> 100 | Some p \<Rightarrow> if p = 0 then 100 else p),
       u_locations = [],
       total = 0,
       break = 150,
       u_current = 0,
       u_currentCfi = None \<rparr>"

definition locationFromCfi :: "'c comparator \<Rightarrow> 'c Locations \<Rightarrow> 'c \<Rightarrow> int" where
  "locationFromCfi cmp L cfi =
     (if length (u_locations L) = 0 then - 1
      else let loc = locationOf cfi (u_locations L) cmp in
        if loc > total L then total L else loc)"

definition percentageFromLocation :: "'c Locations \<Rightarrow> int \<Rightarrow> real" where
  "percentageFromLocation L loc =
     (if loc = 0 \<or> total L = 0 then 0 else of_int loc / of_int (total L))"

text \<open>\<open>percentageFromCfi\<close> returns \<open>null\<close> or a number.\<close>

datatype percentage = Null | Percentage real

definition percentageFromCfi :: "'c comparator \<Rightarrow> 'c Locations \<Rightarrow> 'c \<Rightarrow> percentage" where
  "percentageFromCfi cmp L cfi =
     (if length (u_locations L) = 0 then Null
      else let loc = locationFromCfi cmp L cfi in
        Percentage (percentageFromLocation L loc))"




text \<open>
  \<open>load\<close> once its argument is an array: the assignment to \<open>_locations\<close> and the update
  of \<open>total\<close>. \<open>load\<close> itself, which also accepts JSON text, follows the JSON functions.
\<close>

definition load_array :: "'c list \<Rightarrow> 'c Locations \<Rightarrow> 'c Locations" where
  "load_array locations L =
     (let L1 = L\<lparr>u_locations := locations\<rparr>
      in L1\<lparr>total := int (length (u_locations L1)) - 1\<rparr>)"

text \<open>
  \<open>setCurrent\<close> given a string, as the setter of \<open>currentLocation\<close> calls it; the event
  it emits is not modelled.
\<close>

definition setCurrent :: "'c comparator \<Rightarrow> 'c \<Rightarrow> 'c Locations \<Rightarrow> 'c Locations" where
  "setCurrent cmp c L =
     (let L1 = L\<lparr>u_currentCfi := Some c\<rparr> in
      if length (u_locations L1) = 0 then L1
      else L1\<lparr>u_current := locationFromCfi cmp L1 c\<rparr>)"


section \<open>Locations: generating the index\<close>

text \<open>
  A text node of a document: an identity and its character data. For a text node,
  \<open>node.length\<close> is the length of \<open>node.textContent\<close>.
\<close>

record text_node =
  nid :: nat
  textContent :: js_string

text \<open>The object \<open>createRange\<close> returns; \<open>None\<close> is \<open>undefined\<close>.\<close>

record dom_range =
  startContainer :: "text_node option"
  startOffset :: "int option"
  endContainer :: "text_node option"
  endOffset :: "int option"

definition createRange :: dom_range where
  "createRange =
     \<lparr> startContainer = None, startOffset = None, endContainer = None, endOffset = None \<rparr>"

text \<open>The variables of \<open>parse\<close> that its callback \<open>parser\<close> reads and writes.\<close>

record 'c parse_vars =
  pv_locations :: "'c list"
  pv_range :: "dom_range option"
  pv_counter :: int
  pv_prev :: "text_node option"

text \<open>
  The \<open>while (pos < len)\<close> loop of \<open>parser\<close>. \<open>mk\<close> stands for
  \<open>new EpubCFI(range, cfiBase).toString()\<close> of the CFI module. The loop need not end
  (a negative chunk size moves \<open>pos\<close> backwards), so not returning is \<open>None\<close>. Writing a
  field of an undefined \<open>range\<close> is a \<open>TypeError\<close>.
\<close>

partial_function (option) parser_while ::
  "(dom_range \<Rightarrow> 'c) \<Rightarrow> int \<Rightarrow> text_node \<Rightarrow> int \<Rightarrow> int \<Rightarrow> 'c parse_vars
     \<Rightarrow> (js_error + int \<times> 'c parse_vars) option" where
  "parser_while mk brk node len pos v =
     (if pos < len then
        let dist = brk - pv_counter v;
            pos1 = (if pv_counter v = 0 then pos + 1 else pos);
            v1 = (if pv_counter v = 0
                  then v\<lparr>pv_range :=
                         Some (createRange\<lparr>startContainer := Some node, startOffset := Some pos1\<rparr>)\<rparr>
                  else v)
        in if pos1 + dist \<ge> len
           then parser_while mk brk node len len
                  (v1\<lparr>pv_counter := pv_counter v1 + (len - pos1)\<rparr>)
           else (case pv_range v1 of
                   None \<Rightarrow> Some (Inl TypeError)
                 | Some r \<Rightarrow>
                     let pos2 = pos1 + dist;
                         r2 = r\<lparr>endContainer := Some node, endOffset := Some pos2\<rparr>
                     in parser_while mk brk node len pos2
                          (v1\<lparr>pv_range := Some r2,
                              pv_locations := pv_locations v1 @ [mk r2],
                              pv_counter := 0\<rparr>))
      else Some (Inr (pos, v)))"

declare parser_while.simps [code]

definition parser ::
  "(dom_range \<Rightarrow> 'c) \<Rightarrow> int \<Rightarrow> 'c parse_vars \<Rightarrow> text_node
     \<Rightarrow> (js_error + 'c parse_vars) option" where
  "parser mk brk v node =
     (let len = int (length (textContent node)) in
      if length (trim (textContent node)) = 0 then Some (Inr v)
      else
        let v1 = (if pv_counter v = 0
                  then v\<lparr>pv_range :=
                         Some (createRange\<lparr>startContainer := Some node, startOffset := Some 0\<rparr>)\<rparr>
                  else v);
            dist = brk - pv_counter v1;
            v2 = (if dist > len then v1\<lparr>pv_counter := pv_counter v1 + len\<rparr> else v1);
            pos = (if dist > len then len else 0)
        in case parser_while mk brk node len pos v2 of
             None \<Rightarrow> None
           | Some (Inl e) \<Rightarrow> Some (Inl e)
           | Some (Inr (pos', v3)) \<Rightarrow> Some (Inr (v3\<lparr>pv_prev := Some node\<rparr>)))"

text \<open>
  Modelled from the spec: \<open>sprint\<close> of \<open>utils/core\<close>, whose code is not among the
  sources. The spec: "walk its text nodes in document order". A document body is
  given as the list of its text nodes in that order, and the callback is applied to
  each in turn.
\<close>

fun sprint ::
  "text_node list \<Rightarrow> ('s \<Rightarrow> text_node \<Rightarrow> (js_error + 's) option) \<Rightarrow> 's
     \<Rightarrow> (js_error + 's) option" where
  "sprint [] func s = Some (Inr s)"
| "sprint (node # rest) func s =
     (case func s node of
        None \<Rightarrow> None
      | Some (Inl e) \<Rightarrow> Some (Inl e)
      | Some (Inr s') \<Rightarrow> sprint rest func s')"

text \<open>The "Close remaining" step at the end of \<open>parse\<close>.\<close>

definition close_remaining :: "(dom_range \<Rightarrow> 'c) \<Rightarrow> 'c parse_vars \<Rightarrow> 'c list" where
  "close_remaining mk v =
     (case pv_range v of
        None \<Rightarrow> pv_locations v
      | Some r \<Rightarrow>
          (case startContainer r of
             None \<Rightarrow> pv_locations v
           | Some _ \<Rightarrow>
               (case pv_prev v of
                  None \<Rightarrow> pv_locations v
                | Some p \<Rightarrow>
                    pv_locations v @
                      [mk (r\<lparr>endContainer := Some p,
                             endOffset := Some (int (length (textContent p)))\<rparr>)])))"

definition parse_init :: "'c parse_vars" where
  "parse_init = \<lparr> pv_locations = [], pv_range = None, pv_counter = 0, pv_prev = None \<rparr>"

text \<open>
  \<open>parse(contents, cfiBase, chars)\<close>; \<open>this_break\<close> is \<open>this.break\<close>, used when \<open>chars\<close> is
  missing or zero (\<open>chars || this.break\<close>).
\<close>

definition parse ::
  "(dom_range \<Rightarrow> js_string \<Rightarrow> 'c) \<Rightarrow> int \<Rightarrow> text_node list \<Rightarrow> js_string \<Rightarrow> int option
     \<Rightarrow> (js_error + 'c list) option" where
  "parse mk this_break body cfiBase chars =
     (let brk = (case chars of None \<Rightarrow> this_break
                 | Some c \<Rightarrow> if c \<noteq> 0 then c else this_break)
      in case sprint body (parser (\<lambda>r. mk r cfiBase) brk) parse_init of
           None \<Rightarrow> None
         | Some (Inl e) \<Rightarrow> Some (Inl e)
         | Some (Inr v) \<Rightarrow> Some (Inr (close_remaining (\<lambda>r. mk r cfiBase) v)))"

text \<open>
  A spine item: its \<open>linear\<close> flag, its \<open>cfiBase\<close>, and the text nodes of the body of the
  document that \<open>section.load\<close> resolves to. A loader that fails is not modelled.
\<close>

record Section =
  linear :: bool
  cfiBase :: js_string
  contents :: "text_node list"

text \<open>
  \<open>Locations.process(section)\<close>, named \<open>process_section\<close> here because \<open>PageList\<close> has a
  \<open>process\<close> too; the pause before the task resolves is not modelled.
\<close>

definition process_section ::
  "(dom_range \<Rightarrow> js_string \<Rightarrow> 'c) \<Rightarrow> 'c Locations \<Rightarrow> Section
     \<Rightarrow> (js_error + 'c Locations) option" where
  "process_section mk L s =
     (case parse mk (break L) (contents s) (cfiBase s) None of
        None \<Rightarrow> None
      | Some (Inl e) \<Rightarrow> Some (Inl e)
      | Some (Inr locs) \<Rightarrow> Some (Inr (L\<lparr>u_locations := u_locations L @ locs\<rparr>)))"

text \<open>
  Modelled from the spec: the \<open>Queue\<close> of \<open>utils/queue\<close>, whose code is not among the
  sources. The spec: a sequential task queue whose \<open>run()\<close> completes every enqueued
  task "in spine order, one at a time".
\<close>

fun q_run ::
  "('s \<Rightarrow> 't \<Rightarrow> (js_error + 's) option) \<Rightarrow> 't list \<Rightarrow> 's \<Rightarrow> (js_error + 's) option" where
  "q_run task [] s = Some (Inr s)"
| "q_run task (x # queue) s =
     (case task s x of
        None \<Rightarrow> None
      | Some (Inl e) \<Rightarrow> Some (Inl e)
      | Some (Inr s') \<Rightarrow> q_run task queue s')"

text \<open>
  \<open>generate(chars)\<close>. \<open>spine.each\<close> enqueues the sections whose \<open>linear\<close> flag is set;
  after the queue has run, \<open>total\<close> is set and a pending \<open>_currentCfi\<close> is made current.
\<close>

definition generate ::
  "(dom_range \<Rightarrow> js_string \<Rightarrow> 'c) \<Rightarrow> 'c comparator \<Rightarrow> int option \<Rightarrow> 'c Locations
     \<Rightarrow> Section list \<Rightarrow> (js_error + 'c Locations) option" where
  "generate mk cmp chars L spine =
     (let L1 = (case chars of None \<Rightarrow> L
                | Some c \<Rightarrow> if c \<noteq> 0 then L\<lparr>break := c\<rparr> else L);
          queue = filter linear spine
      in case q_run (process_section mk) queue L1 of
           None \<Rightarrow> None
         | Some (Inl e) \<Rightarrow> Some (Inl e)
         | Some (Inr L2) \<Rightarrow>
             let L3 = L2\<lparr>total := int (length (u_locations L2)) - 1\<rparr>
             in Some (Inr (case u_currentCfi L3 of
                             None \<Rightarrow> L3
                           | Some c \<Rightarrow> setCurrent cmp c L3)))"


section \<open>Locations: saving and loading\<close>

text \<open>
  \<open>JSON.stringify\<close> applied to an array of strings: the strings quoted as ECMAScript's
  QuoteJSONString does, separated by commas, in brackets. A quote, a backslash and the
  control characters are escaped; a surrogate that is not one half of a pair is written
  as a six-character unicode escape with lower-case digits.
\<close>

definition hex_digit :: "nat \<Rightarrow> 16 word" where
  "hex_digit d =
     [0x30, 0x31, 0x32, 0x33, 0x34, 0x35, 0x36, 0x37, 0x38, 0x39,
      0x61, 0x62, 0x63, 0x64, 0x65, 0x66] ! d"

definition unicode_escape :: "16 word \<Rightarrow> js_string" where
  "unicode_escape c =
     [0x5C, 0x75, hex_digit (unat c div 4096), hex_digit (unat c div 256 mod 16),
      hex_digit (unat c div 16 mod 16), hex_digit (unat c mod 16)]"

definition is_leading_surrogate :: "16 word \<Rightarrow> bool" where
  "is_leading_surrogate c \<longleftrightarrow> 0xD800 \<le> c \<and> c \<le> 0xDBFF"

definition is_trailing_surrogate :: "16 word \<Rightarrow> bool" where
  "is_trailing_surrogate c \<longleftrightarrow> 0xDC00 \<le> c \<and> c \<le> 0xDFFF"

definition short_escape :: "16 word \<Rightarrow> 16 word option" where
  "short_escape c =
     (if c = 0x08 then Some 0x62
      else if c = 0x09 then Some 0x74
      else if c = 0x0A then Some 0x6E
      else if c = 0x0C then Some 0x66
      else if c = 0x0D then Some 0x72
      else if c = 0x22 then Some 0x22
      else if c = 0x5C then Some 0x5C
      else None)"

definition escape_unit :: "16 word \<Rightarrow> js_string" where
  "escape_unit c =
     (case short_escape c of
        Some e \<Rightarrow> [0x5C, e]
      | None \<Rightarrow>
          if c < 0x20 \<or> is_leading_surrogate c \<or> is_trailing_surrogate c
          then unicode_escape c else [c])"

fun QuoteJSONString_units :: "js_string \<Rightarrow> js_string" where
  "QuoteJSONString_units [] = []"
| "QuoteJSONString_units [c] = escape_unit c"
| "QuoteJSONString_units (c # d # ds) =
     (if is_leading_surrogate c \<and> is_trailing_surrogate d
      then c # d # QuoteJSONString_units ds
      else escape_unit c @ QuoteJSONString_units (d # ds))"

definition QuoteJSONString :: "js_string \<Rightarrow> js_string" where
  "QuoteJSONString s = [0x22] @ QuoteJSONString_units s @ [0x22]"

fun join_comma :: "js_string list \<Rightarrow> js_string" where
  "join_comma [] = []"
| "join_comma [x] = x"
| "join_comma (x # y # ys) = x @ [0x2C] @ join_comma (y # ys)"

definition JSON_stringify :: "js_string list \<Rightarrow> js_string" where
  "JSON_stringify xs = [0x5B] @ join_comma (map QuoteJSONString xs) @ [0x5D]"

definition hex_value :: "16 word \<Rightarrow> nat option" where
  "hex_value c =
     (if 0x30 \<le> c \<and> c \<le> 0x39 then Some (unat c - 48)
      else if 0x61 \<le> c \<and> c \<le> 0x66 then Some (unat c - 87)
      else if 0x41 \<le> c \<and> c \<le> 0x46 then Some (unat c - 55)
      else None)"

definition hex4 :: "16 word \<Rightarrow> 16 word \<Rightarrow> 16 word \<Rightarrow> 16 word \<Rightarrow> 16 word option" where
  "hex4 h1 h2 h3 h4 =
     (case hex_value h1 of None \<Rightarrow> None | Some a \<Rightarrow>
     (case hex_value h2 of None \<Rightarrow> None | Some b \<Rightarrow>
     (case hex_value h3 of None \<Rightarrow> None | Some c \<Rightarrow>
     (case hex_value h4 of None \<Rightarrow> None | Some d \<Rightarrow>
        Some (of_nat (a * 4096 + b * 256 + c * 16 + d))))))"

definition single_escape :: "16 word \<Rightarrow> 16 word option" where
  "single_escape e =
     (if e = 0x22 then Some 0x22
      else if e = 0x5C then Some 0x5C
      else if e = 0x2F then Some 0x2F
      else if e = 0x62 then Some 0x08
      else if e = 0x66 then Some 0x0C
      else if e = 0x6E then Some 0x0A
      else if e = 0x72 then Some 0x0D
      else if e = 0x74 then Some 0x09
      else None)"

definition cons_unit ::
  "16 word \<Rightarrow> (js_string \<times> js_string) option \<Rightarrow> (js_string \<times> js_string) option" where
  "cons_unit c r = (case r of None \<Rightarrow> None | Some (s, rest) \<Rightarrow> Some (c # s, rest))"

fun JSONString_units :: "js_string \<Rightarrow> (js_string \<times> js_string) option" where
  "JSONString_units [] = None"
| "JSONString_units (c # cs) =
     (if c = 0x22 then Some ([], cs)
      else if c = 0x5C then
        (case cs of
           [] \<Rightarrow> None
         | e # es \<Rightarrow>
             if e = 0x75 then
               (case es of
                  h1 # h2 # h3 # h4 # rest \<Rightarrow>
                    (case hex4 h1 h2 h3 h4 of
                       None \<Rightarrow> None
                     | Some u \<Rightarrow> cons_unit u (JSONString_units rest))
                | _ \<Rightarrow> None)
             else
               (case single_escape e of
                  None \<Rightarrow> None
                | Some u \<Rightarrow> cons_unit u (JSONString_units es)))
      else if c < 0x20 then None
      else cons_unit c (JSONString_units cs))"


definition is_json_ws :: "16 word \<Rightarrow> bool" where
  "is_json_ws c \<longleftrightarrow> c \<in> {0x09, 0x0A, 0x0D, 0x20}"

definition skip_ws :: "js_string \<Rightarrow> js_string" where
  "skip_ws s = dropWhile is_json_ws s"


text \<open>
  \<open>JSON.parse\<close>, as far as \<open>load\<close> needs it: the text must be an array of strings, with
  JSON white space allowed between the tokens. \<open>None\<close> stands for every other text,
  where JavaScript either throws a \<open>SyntaxError\<close> or returns a value that is not a list
  of strings; neither is followed further.
\<close>

function JSON_elements :: "js_string \<Rightarrow> js_string list option" where
  "JSON_elements s =
     (case s of
        [] \<Rightarrow> None
      | c # cs \<Rightarrow>
          if c \<noteq> 0x22 then None
          else (case JSONString_units cs of
                  None \<Rightarrow> None
                | Some (str, rest) \<Rightarrow>
                    (case skip_ws rest of
                       [] \<Rightarrow> None
                     | d # ds \<Rightarrow>
                         if d = 0x2C then map_option ((#) str) (JSON_elements (skip_ws ds))
                         else if d = 0x5D then (if skip_ws ds = [] then Some [str] else None)
                         else None)))"
  by pat_completeness auto
termination
proof (relation "measure length", goal_cases)
  case 1
  show ?case by simp
next
  case (2 s c cs x str rest d ds)
  have shorter: "JSONString_units us = Some (t, r) \<Longrightarrow> length r < length us" for us t r
  proof (induction us arbitrary: t r rule: JSONString_units.induct)
    case 1
    then show ?case by simp
  next
    case (2 c cs)
    then show ?case
      by (fastforce simp add: cons_unit_def split: if_splits list.splits option.splits)
  qed
  have skip: "length (skip_ws us) \<le> length us" for us
    by (simp add: skip_ws_def length_dropWhile_le)
  have "JSONString_units cs = Some (str, rest)"
    using 2 by simp
  then have "length rest < length cs"
    by (rule shorter)
  moreover have "length (d # ds) \<le> length rest"
    using 2 skip[of rest] by simp
  moreover have "length (skip_ws ds) \<le> length ds"
    by (rule skip)
  ultimately show ?case using 2 by simp
qed

definition JSON_parse :: "js_string \<Rightarrow> js_string list option" where
  "JSON_parse text =
     (case skip_ws text of
        [] \<Rightarrow> None
      | c # cs \<Rightarrow>
          if c \<noteq> 0x5B then None
          else (case skip_ws cs of
                  [] \<Rightarrow> None
                | d # ds \<Rightarrow>
                    if d = 0x5D then (if skip_ws ds = [] then Some [] else None)
                    else JSON_elements (d # ds)))"

declare JSON_elements.simps [simp del]

definition save :: "js_string Locations \<Rightarrow> js_string" where
  "save L = JSON_stringify (u_locations L)"

text \<open>The argument of \<open>load\<close>: a string (\<open>typeof locations === "string"\<close>) or an array.\<close>

datatype load_argument = JsonText js_string | LocationArray "js_string list"

definition load :: "load_argument \<Rightarrow> js_string Locations \<Rightarrow> js_string Locations option" where
  "load locations L =
     (case locations of
        JsonText text \<Rightarrow>
          (case JSON_parse text of
             None \<Rightarrow> None
           | Some array \<Rightarrow> Some (load_array array L))
      | LocationArray array \<Rightarrow> Some (load_array array L))"


section \<open>PageList\<close>

text \<open>
  An entry of the parsed page list. \<open>cfi\<close> is \<open>None\<close> when the entry has no \<open>cfi\<close> field
  or a falsy one (\<open>false\<close>, \<open>""\<close>); \<open>page\<close> is what \<open>parseInt\<close> made of the label.
\<close>

record 'c page_item =
  href :: js_string
  cfi :: "'c option"
  page :: jsnum

record 'c PageList =
  pages :: "jsnum list"
  locations :: "'c list"
  firstPage :: jsnum
  lastPage :: jsnum
  totalPages :: jsnum

definition PageList_constructor :: "'c PageList" where
  "PageList_constructor =
     \<lparr> pages = [], locations = [], firstPage = Fin 0, lastPage = Fin 0, totalPages = Fin 0 \<rparr>"



text \<open>\<open>pageFromCfi\<close>; \<open>None\<close> is \<open>undefined\<close>, which the first branch can return.\<close>

definition pageFromCfi :: "'c comparator \<Rightarrow> 'c PageList \<Rightarrow> 'c \<Rightarrow> jsnum option" where
  "pageFromCfi cmp P c =
     (if length (locations P) = 0 then Some (Fin (- 1))
      else let index = indexOfSorted c (locations P) cmp in
        if index \<noteq> - 1 then js_nth (pages P) index
        else let index = locationOf c (locations P) cmp;
                 pg = (if index - 1 \<ge> 0 then js_nth (pages P) (index - 1)
                       else js_nth (pages P) 0)
             in (case pg of Some v \<Rightarrow> Some v | None \<Rightarrow> Some (Fin (- 1))))"





section \<open>Notions used in the statements\<close>



section \<open>Stand-ins for the CFI module in the examples\<close>

text \<open>
  The examples need concrete CFIs and a concrete comparator. Where the content of a CFI
  does not matter it is replaced by its rank in document order (a natural number);
  \<open>compare_rank\<close> orders ranks as the comparator orders positions, and collapsing a rank
  leaves it unchanged. \<open>compare_length\<close> orders strings by their length only.
\<close>

definition compare_rank :: "nat comparator" where
  "compare_rank a b = (if a < b then - 1 else if a = b then 0 else 1)"


definition compare_length :: "js_string comparator" where
  "compare_length a b =
     (if length a < length b then - 1 else if length a = length b then 0 else 1)"

text \<open>Two strings to save and load; the second contains a quotation mark.\<close>

definition cfi_a :: js_string where
  "cfi_a = [0x65, 0x70, 0x75, 0x62, 0x63, 0x66, 0x69, 0x28, 0x2F, 0x36, 0x2F, 0x32, 0x21,
            0x2F, 0x34, 0x2F, 0x32, 0x2C, 0x2F, 0x31, 0x3A, 0x30, 0x2C, 0x2F, 0x31, 0x3A,
            0x34, 0x29]"

definition cfi_b :: js_string where
  "cfi_b = [0x65, 0x70, 0x75, 0x62, 0x63, 0x66, 0x69, 0x28, 0x2F, 0x36, 0x2F, 0x32, 0x5B,
            0x22, 0x5D, 0x21, 0x2F, 0x34, 0x29]"

text \<open>
  In the examples of \<open>generate\<close>, the CFI made from a range is the range itself, written
  as the identities of its two nodes and its two offsets.
\<close>

definition offsets_cfi :: "dom_range \<Rightarrow> js_string \<Rightarrow> nat option \<times> int option \<times> nat option \<times> int option" where
  "offsets_cfi r base =
     (map_option nid (startContainer r), startOffset r, map_option nid (endContainer r),
      endOffset r)"

text \<open>
  A spine of three sections, the second not linear. The first document has the text
  nodes "ab", a node of white space and "cdefg"; the third has "opq".
\<close>

definition example_spine :: "Section list" where
  "example_spine =
     [\<lparr>linear = True, cfiBase = [],
       contents = [\<lparr>nid = 1, textContent = [0x61, 0x62]\<rparr>,
                   \<lparr>nid = 2, textContent = [0x20, 0x0A]\<rparr>,
                   \<lparr>nid = 3, textContent = [0x63, 0x64, 0x65, 0x66, 0x67]\<rparr>]\<rparr>,
      \<lparr>linear = False, cfiBase = [],
       contents = [\<lparr>nid = 4, textContent = [0x68, 0x69, 0x6A, 0x6B, 0x6C, 0x6D, 0x6E]\<rparr>]\<rparr>,
      \<lparr>linear = True, cfiBase = [],
       contents = [\<lparr>nid = 5, textContent = [0x6F, 0x70, 0x71]\<rparr>]\<rparr>]"


section \<open>Auxiliary facts\<close>

subsection \<open>The list of locations and the searches\<close>

lemma load_array_fields:
  "u_locations (load_array xs L) = xs" "total (load_array xs L) = int (length xs) - 1"
  by (simp_all add: load_array_def Let_def)

lemma locationOf_between_correct:
  assumes "sorted_wrt (\<lambda>a b. cmp b item < 0 \<longrightarrow> cmp a item < 0) array"
    and "start \<le> end" and "end \<le> length array"
    and "\<forall>j. j < start \<longrightarrow> cmp (array ! j) item < 0"
    and "\<forall>j. end \<le> j \<longrightarrow> j < length array \<longrightarrow> \<not> cmp (array ! j) item < 0"
  shows "start \<le> locationOf_between item array cmp start end
       \<and> locationOf_between item array cmp start end \<le> end
       \<and> (\<forall>j. j < locationOf_between item array cmp start end \<longrightarrow> cmp (array ! j) item < 0)
       \<and> (\<forall>j. locationOf_between item array cmp start end \<le> j \<longrightarrow> j < length array
              \<longrightarrow> \<not> cmp (array ! j) item < 0)"
  using assms
proof (induction item array cmp start "end" rule: locationOf_between.induct)
  case (1 item array cmp start e)
  have mono: "\<And>i j. i < j \<Longrightarrow> j < length array \<Longrightarrow> cmp (array ! j) item < 0
                 \<Longrightarrow> cmp (array ! i) item < 0"
    using "1.prems"(1) by (auto simp add: sorted_wrt_iff_nth_less)
  show ?case
  proof (cases "e \<le> start")
    case True
    then have "e = start" using "1.prems" by simp
    then show ?thesis
      using "1.prems" by (subst (1 2 3 4) locationOf_between.simps) simp
  next
    case False
    define pivot where "pivot = start + (e - start) div 2"
    have p: "start \<le> pivot" "pivot < e" "pivot < length array"
      using False "1.prems" by (auto simp add: pivot_def)
    show ?thesis
    proof (cases "cmp (array ! pivot) item < 0")
      case True
      have below: "\<forall>j. j < pivot + 1 \<longrightarrow> cmp (array ! j) item < 0"
      proof (intro allI impI)
        fix j assume "j < pivot + 1"
        then have "j < pivot \<or> j = pivot" by auto
        then show "cmp (array ! j) item < 0"
          using mono[of j pivot] True p by auto
      qed
      have ih: "pivot + 1 \<le> locationOf_between item array cmp (pivot + 1) e
       \<and> locationOf_between item array cmp (pivot + 1) e \<le> e
       \<and> (\<forall>j. j < locationOf_between item array cmp (pivot + 1) e \<longrightarrow> cmp (array ! j) item < 0)
       \<and> (\<forall>j. locationOf_between item array cmp (pivot + 1) e \<le> j \<longrightarrow> j < length array
              \<longrightarrow> \<not> cmp (array ! j) item < 0)"
        using "1.IH"(1)[OF False pivot_def True "1.prems"(1)] p below "1.prems" by simp
      have eq: "locationOf_between item array cmp start e
                  = locationOf_between item array cmp (pivot + 1) e"
        using False True by (subst locationOf_between.simps) (simp add: pivot_def Let_def)
      show ?thesis unfolding eq using ih p by auto
    next
      case notbelow: False
      have above: "\<forall>j. pivot \<le> j \<longrightarrow> j < length array \<longrightarrow> \<not> cmp (array ! j) item < 0"
      proof (intro allI impI)
        fix j assume "pivot \<le> j" "j < length array"
        then have "pivot < j \<or> j = pivot" by auto
        then show "\<not> cmp (array ! j) item < 0"
          using mono[of pivot j] notbelow \<open>j < length array\<close> by auto
      qed
      have ih: "start \<le> locationOf_between item array cmp start pivot
       \<and> locationOf_between item array cmp start pivot \<le> pivot
       \<and> (\<forall>j. j < locationOf_between item array cmp start pivot \<longrightarrow> cmp (array ! j) item < 0)
       \<and> (\<forall>j. locationOf_between item array cmp start pivot \<le> j \<longrightarrow> j < length array
              \<longrightarrow> \<not> cmp (array ! j) item < 0)"
        using "1.IH"(2)[OF False pivot_def notbelow "1.prems"(1)] p above "1.prems" by simp
      have eq: "locationOf_between item array cmp start e
                  = locationOf_between item array cmp start pivot"
        using False notbelow by (subst locationOf_between.simps) (simp add: pivot_def Let_def)
      show ?thesis unfolding eq using ih p by auto
    qed
  qed
qed

lemma locationOf_insertion_point:
  assumes "sorted_wrt (\<lambda>a b. cmp b item < 0 \<longrightarrow> cmp a item < 0) array"
  shows "0 \<le> locationOf item array cmp \<and> locationOf item array cmp \<le> int (length array)
       \<and> (\<forall>j < nat (locationOf item array cmp). cmp (array ! j) item < 0)
       \<and> (\<forall>j. nat (locationOf item array cmp) \<le> j \<longrightarrow> j < length array
              \<longrightarrow> 0 \<le> cmp (array ! j) item)"
  using assms
    locationOf_between_correct[where cmp = cmp and item = item and array = array
      and start = 0 and ?end = "length array"]
  by (simp add: locationOf_def not_less)



subsection \<open>The page list\<close>






subsection \<open>JSON text of an array of strings\<close>

lemma hex_recombine_nat:
  "(n::nat) div 4096 * 4096 + n div 256 mod 16 * 256 + n div 16 mod 16 * 16 + n mod 16 = n"
proof -
  define q1 where "q1 = n div 16"
  define q2 where "q2 = q1 div 16"
  define q3 where "q3 = q2 div 16"
  have e1: "n = q1 * 16 + n mod 16" by (simp add: q1_def)
  have e2: "q1 = q2 * 16 + q1 mod 16" by (simp add: q2_def)
  have e3: "q2 = q3 * 16 + q2 mod 16" by (simp add: q3_def)
  have d2: "n div 256 = q2" by (simp add: q2_def q1_def div_mult2_eq)
  have d3: "n div 4096 = q3" by (simp add: q3_def q2_def q1_def div_mult2_eq)
  have "q3 * 4096 + q2 mod 16 * 256 + q1 mod 16 * 16 + n mod 16 = n"
    using e1 e2 e3 by linarith
  then show ?thesis by (simp add: d2 d3 q1_def)
qed

lemma below16:
  "(d::nat) < 16 \<Longrightarrow> d = 0 \<or> d = 1 \<or> d = 2 \<or> d = 3 \<or> d = 4 \<or> d = 5 \<or> d = 6 \<or> d = 7 \<or> d = 8
     \<or> d = 9 \<or> d = 10 \<or> d = 11 \<or> d = 12 \<or> d = 13 \<or> d = 14 \<or> d = 15"
  by arith

lemma hex_value_digit: "d < 16 \<Longrightarrow> hex_value (hex_digit d) = Some d"
  by (drule below16, elim disjE) (simp_all add: hex_value_def hex_digit_def)

lemma unat_div4096: "unat (c :: 16 word) div 4096 < 16"
  using unsigned_less[of c, where ?'a = nat] by simp

lemma hex4_unicode:
  "hex4 (hex_digit (unat c div 4096)) (hex_digit (unat c div 256 mod 16))
     (hex_digit (unat c div 16 mod 16)) (hex_digit (unat c mod 16)) = Some c"
proof -
  have "hex4 (hex_digit (unat c div 4096)) (hex_digit (unat c div 256 mod 16))
     (hex_digit (unat c div 16 mod 16)) (hex_digit (unat c mod 16))
     = Some (of_nat (unat c div 4096 * 4096 + unat c div 256 mod 16 * 256
          + unat c div 16 mod 16 * 16 + unat c mod 16))"
    unfolding hex4_def
    by (simp only: hex_value_digit unat_div4096 mod_less_divisor zero_less_numeral option.simps)
  then show ?thesis by (simp only: hex_recombine_nat) simp
qed

lemma JSONString_units_unicode:
  "JSONString_units (unicode_escape c @ rest) = cons_unit c (JSONString_units rest)"
  by (simp add: unicode_escape_def hex4_unicode)

lemma surrogate_plain:
  assumes "is_leading_surrogate c \<or> is_trailing_surrogate c"
  shows "c \<noteq> 0x22" "c \<noteq> 0x5C" "\<not> c < 0x20"
proof -
  have d: "0xD800 \<le> c"
  proof (cases "is_leading_surrogate c")
    case True
    then show ?thesis by (simp add: is_leading_surrogate_def)
  next
    case False
    with assms have "0xDC00 \<le> c" by (simp add: is_trailing_surrogate_def)
    moreover have "(0xD800 :: 16 word) \<le> 0xDC00" by simp
    ultimately show ?thesis by (rule order_trans[rotated])
  qed
  show "c \<noteq> 0x22" using d by auto
  show "c \<noteq> 0x5C" using d by auto
  show "\<not> c < 0x20"
  proof
    assume "c < 0x20"
    with d have "(0xD800 :: 16 word) < 0x20" by (rule le_less_trans)
    then show False by simp
  qed
qed

lemma JSONString_units_end: "JSONString_units (0x22 # rest) = Some ([], rest)"
  by simp

lemma JSONString_units_plain:
  "c \<noteq> 0x22 \<Longrightarrow> c \<noteq> 0x5C \<Longrightarrow> \<not> c < 0x20 \<Longrightarrow>
     JSONString_units (c # rest) = cons_unit c (JSONString_units rest)"
  by simp

lemma JSONString_units_short:
  "short_escape c = Some e \<Longrightarrow>
     JSONString_units (0x5C # e # rest) = cons_unit c (JSONString_units rest)"
  by (auto simp add: short_escape_def single_escape_def split: if_splits)

lemma short_escape_None:
  "short_escape c = None \<Longrightarrow> c \<noteq> 0x22 \<and> c \<noteq> 0x5C"
  by (auto simp add: short_escape_def split: if_splits)

lemma JSONString_units_escape_unit:
  "JSONString_units (escape_unit c @ rest) = cons_unit c (JSONString_units rest)"
proof (cases "short_escape c")
  case (Some e)
  then show ?thesis
    by (simp add: escape_unit_def JSONString_units_short del: JSONString_units.simps)
next
  case None
  show ?thesis
  proof (cases "c < 0x20 \<or> is_leading_surrogate c \<or> is_trailing_surrogate c")
    case True
    then show ?thesis
      using None by (simp add: escape_unit_def JSONString_units_unicode del: JSONString_units.simps)
  next
    case False
    then show ?thesis
      using None short_escape_None[OF None]
      by (simp add: escape_unit_def JSONString_units_plain del: JSONString_units.simps)
  qed
qed

lemma JSONString_units_Quote:
  "JSONString_units (QuoteJSONString_units s @ 0x22 # rest) = Some (s, rest)"
proof (induction s rule: QuoteJSONString_units.induct)
  case 1
  show ?case by simp
next
  case (2 c)
  show ?case
    by (simp add: JSONString_units_escape_unit JSONString_units_end cons_unit_def
          del: JSONString_units.simps)
next
  case (3 c d ds)
  show ?case
  proof (cases "is_leading_surrogate c \<and> is_trailing_surrogate d")
    case True
    then have ih: "JSONString_units (QuoteJSONString_units ds @ 0x22 # rest) = Some (ds, rest)"
      using 3 by simp
    have "JSONString_units (c # d # QuoteJSONString_units ds @ 0x22 # rest)
            = cons_unit c (cons_unit d (JSONString_units (QuoteJSONString_units ds @ 0x22 # rest)))"
      using surrogate_plain[of c] surrogate_plain[of d] True
      by (simp add: JSONString_units_plain del: JSONString_units.simps)
    then show ?thesis
      using True ih by (simp add: cons_unit_def del: JSONString_units.simps)
  next
    case False
    then have ih: "JSONString_units (QuoteJSONString_units (d # ds) @ 0x22 # rest)
                     = Some (d # ds, rest)"
      using 3 by simp
    have q: "QuoteJSONString_units (c # d # ds) = escape_unit c @ QuoteJSONString_units (d # ds)"
      using False by auto
    show ?thesis
      unfolding q using ih
      by (simp add: JSONString_units_escape_unit cons_unit_def
            del: JSONString_units.simps QuoteJSONString_units.simps)
  qed
qed

lemma skip_ws_token:
  "skip_ws (0x22 # s) = 0x22 # s" "skip_ws (0x5D # s) = 0x5D # s"
  "skip_ws (0x2C # s) = 0x2C # s" "skip_ws (0x5B # s) = 0x5B # s" "skip_ws [] = []"
  by (simp_all add: skip_ws_def is_json_ws_def)

lemma join_comma_Quote:
  "join_comma (map QuoteJSONString (x # xs)) =
     0x22 # QuoteJSONString_units x @ 0x22 #
       (if xs = [] then [] else 0x2C # join_comma (map QuoteJSONString xs))"
  by (cases xs) (simp_all add: QuoteJSONString_def)

lemma JSON_elements_join:
  "xs \<noteq> [] \<Longrightarrow> JSON_elements (join_comma (map QuoteJSONString xs) @ [0x5D]) = Some xs"
proof (induction xs)
  case Nil
  then show ?case by simp
next
  case (Cons x xs)
  show ?case
  proof (cases "xs = []")
    case True
    then show ?thesis
      by (subst JSON_elements.simps)
         (simp add: QuoteJSONString_def JSONString_units_Quote skip_ws_token
            del: JSONString_units.simps)
  next
    case False
    then obtain y ys where xs: "xs = y # ys" by (cases xs) auto
    have ih: "JSON_elements (join_comma (map QuoteJSONString xs) @ [0x5D]) = Some xs"
      using Cons.IH False by simp
    have rest: "skip_ws (join_comma (map QuoteJSONString xs) @ [0x5D])
                  = join_comma (map QuoteJSONString xs) @ [0x5D]"
      unfolding xs join_comma_Quote by (simp add: skip_ws_token)
    show ?thesis
      apply (subst join_comma_Quote)
      apply (subst JSON_elements.simps)
      using False ih rest
      apply (simp add: JSONString_units_Quote skip_ws_token del: JSONString_units.simps)
      done
  qed
qed

lemma JSON_parse_stringify: "JSON_parse (JSON_stringify xs) = Some xs"
proof (cases xs)
  case Nil
  then show ?thesis
    by (simp add: JSON_parse_def JSON_stringify_def skip_ws_token)
next
  case (Cons x rest)
  have q: "skip_ws (join_comma (map QuoteJSONString xs) @ [0x5D])
             = join_comma (map QuoteJSONString xs) @ [0x5D]"
    unfolding Cons join_comma_Quote by (simp add: skip_ws_token)
  have h: "join_comma (map QuoteJSONString xs) @ [0x5D]
             = 0x22 # tl (join_comma (map QuoteJSONString xs) @ [0x5D])"
    unfolding Cons join_comma_Quote by simp
  have e: "JSON_elements (join_comma (map QuoteJSONString xs) @ [0x5D]) = Some xs"
    using Cons by (intro JSON_elements_join) simp
  have "JSON_parse (0x5B # join_comma (map QuoteJSONString xs) @ [0x5D])
          = (case join_comma (map QuoteJSONString xs) @ [0x5D] of
               [] \<Rightarrow> None
             | d # ds \<Rightarrow>
                 if d = 0x5D then (if skip_ws ds = [] then Some [] else None)
                 else JSON_elements (d # ds))"
    by (simp add: JSON_parse_def skip_ws_token q)
  also have "\<dots> = JSON_elements (join_comma (map QuoteJSONString xs) @ [0x5D])"
    by (subst h, simp, subst (2) h, rule refl)
  finally show ?thesis by (simp add: JSON_stringify_def e)
qed

lemma example_save:
  "save (load_array [cfi_a, cfi_b] (Locations_constructor None))
     = [0x5B, 0x22] @ cfi_a @ [0x22, 0x2C, 0x22]
       @ [0x65, 0x70, 0x75, 0x62, 0x63, 0x66, 0x69, 0x28, 0x2F, 0x36, 0x2F, 0x32, 0x5B,
          0x5C, 0x22, 0x5D, 0x21, 0x2F, 0x34, 0x29] @ [0x22, 0x5D]"
  by code_simp

subsection \<open>The walk over the text nodes\<close>









lemma generate_total:
  assumes "generate mk cmp chars L spine = Some (Inr L')"
  shows "total L' = int (length (u_locations L')) - 1"
proof -
  define L1 where "L1 = (case chars of None \<Rightarrow> L
      | Some c \<Rightarrow> if c \<noteq> 0 then L\<lparr>break := c\<rparr> else L)"
  obtain L2 where q: "q_run (process_section mk) (filter linear spine) L1 = Some (Inr L2)"
    and l: "L' = (case u_currentCfi (L2\<lparr>total := int (length (u_locations L2)) - 1\<rparr>) of
                    None \<Rightarrow> L2\<lparr>total := int (length (u_locations L2)) - 1\<rparr>
                  | Some c \<Rightarrow> setCurrent cmp c (L2\<lparr>total := int (length (u_locations L2)) - 1\<rparr>))"
    using assms
    by (auto simp add: generate_def Let_def L1_def[symmetric] split: option.splits sum.splits)
  show ?thesis
    unfolding l by (simp add: setCurrent_def Let_def split: option.splits)
qed

lemma load_total:
  assumes "load arg L = Some L'"
  shows "total L' = int (length (u_locations L')) - 1"
  using assms
  by (auto simp add: load_def load_array_fields split: load_argument.splits option.splits)






lemma example_generate:
  "generate offsets_cfi (\<lambda>a b. 0) (Some 4) (Locations_constructor None) example_spine
     = Some (Inr ((Locations_constructor None)
          \<lparr>u_locations := [(Some 1, Some 0, Some 3, Some 2), (Some 3, Some 3, Some 3, Some 5),
                            (Some 5, Some 0, Some 5, Some 3)],
           total := 2, break := 4\<rparr>))"
  by code_simp






section \<open>Claims about the generation of the index\<close>



text \<open>
  C9. After \<open>load\<close>, in either form, and after \<open>generate\<close> has returned, \<open>total\<close> is the
  number of entries minus one. \<open>percentageFromLocation\<close> divides the location by \<open>total\<close>
  when neither is 0; so with two or more entries the last one has the percentage 1,
  and with exactly one entry \<open>total\<close> is 0 and every location has the percentage 0.
\<close>

theorem total_is_count_minus_one:
  "total (load_array xs L) = int (length xs) - 1
   \<and> (load arg Lj = Some Lj' \<longrightarrow> total Lj' = int (length (u_locations Lj')) - 1)
   \<and> (generate mk cmp chars Lg spine = Some (Inr Lg') \<longrightarrow>
        total Lg' = int (length (u_locations Lg')) - 1)
   \<and> (loc \<noteq> 0 \<longrightarrow> total L0 \<noteq> 0 \<longrightarrow>
        percentageFromLocation L0 loc = of_int loc / of_int (total L0))
   \<and> (2 \<le> length xs \<longrightarrow>
        percentageFromLocation (load_array xs L) (int (length xs) - 1) = 1)
   \<and> (length xs = 1 \<longrightarrow>
        total (load_array xs L) = 0 \<and> percentageFromLocation (load_array xs L) loc = 0)"
proof (intro conjI impI)
  show "total (load_array xs L) = int (length xs) - 1"
    by (simp add: load_array_fields)
  show "total Lj' = int (length (u_locations Lj')) - 1" if "load arg Lj = Some Lj'"
    using that by (rule load_total)
  show "total Lg' = int (length (u_locations Lg')) - 1"
    if "generate mk cmp chars Lg spine = Some (Inr Lg')"
    using that by (rule generate_total)
  show "percentageFromLocation L0 loc = of_int loc / of_int (total L0)"
    if "loc \<noteq> 0" "total L0 \<noteq> 0"
    using that by (simp add: percentageFromLocation_def)
  show "percentageFromLocation (load_array xs L) (int (length xs) - 1) = 1" if "2 \<le> length xs"
    using that by (simp add: percentageFromLocation_def load_array_fields)
  show "total (load_array xs L) = 0" if "length xs = 1"
    using that by (simp add: load_array_fields)
  show "percentageFromLocation (load_array xs L) loc = 0" if "length xs = 1"
    using that by (simp add: percentageFromLocation_def load_array_fields)
qed

text \<open>
  The instance: three ranks loaded as an array, one rank loaded alone, two strings
  loaded from the JSON text that \<open>save\<close> wrote, and the example spine generated.
\<close>

theorem total_is_count_minus_one_witness:
  "total (load_array [10, 20, 30 :: nat] (Locations_constructor None)) = 2
   \<and> percentageFromLocation (load_array [10, 20, 30 :: nat] (Locations_constructor None)) 2 = 1
   \<and> percentageFromLocation (load_array [10, 20, 30 :: nat] (Locations_constructor None)) 1
       = 1 / 2
   \<and> total (load_array [10 :: nat] (Locations_constructor None)) = 0
   \<and> percentageFromLocation (load_array [10 :: nat] (Locations_constructor None)) 5 = 0
   \<and> load (JsonText (save (load_array [cfi_a, cfi_b] (Locations_constructor None))))
         (Locations_constructor None)
       = Some (load_array [cfi_a, cfi_b] (Locations_constructor None))
   \<and> total (load_array [cfi_a, cfi_b] (Locations_constructor None)) = 1
   \<and> generate offsets_cfi (\<lambda>a b. 0) (Some 4) (Locations_constructor None) example_spine
       = Some (Inr ((Locations_constructor None)
            \<lparr>u_locations := [(Some 1, Some 0, Some 3, Some 2), (Some 3, Some 3, Some 3, Some 5),
                              (Some 5, Some 0, Some 5, Some 3)],
             total := 2, break := 4\<rparr>))"
  using total_is_count_minus_one[where xs = "[10, 20, 30 :: nat]"
        and L = "Locations_constructor None" and loc = 1
        and ?L0.0 = "load_array [10, 20, 30 :: nat] (Locations_constructor None)"
        and arg = "JsonText (save (load_array [cfi_a, cfi_b] (Locations_constructor None)))"
        and Lj = "Locations_constructor None"
        and Lj' = "load_array [cfi_a, cfi_b] (Locations_constructor None)"
        and mk = offsets_cfi and cmp = "\<lambda>a b. 0" and chars = "Some 4"
        and Lg = "Locations_constructor None" and spine = example_spine]
    total_is_count_minus_one[where xs = "[10 :: nat]"
        and L = "Locations_constructor None" and loc = 5]
    example_generate
  by (simp add: load_array_fields percentageFromLocation_def load_def save_def
      JSON_parse_stringify)

section \<open>Claims about the queries of Locations\<close>

text \<open>
  C2, amended. \<open>locationFromCfi\<close> returns \<open>-1\<close> when the list of locations is empty;
  otherwise it returns the insertion index that \<open>locationOf\<close> computes with the
  comparator, replaced by \<open>total\<close> when it is greater than \<open>total\<close>. When the entries
  below the CFI form a prefix of the list (as in a list sorted by the comparator), that
  index lies between 0 and the number of entries, every entry before it compares below
  the CFI and no entry from it on does: it is the index of the located boundary or of
  the nearest following one, not of the nearest preceding one.
\<close>

theorem locationFromCfi_insertion_index:
  "locationFromCfi cmp L c =
     (if u_locations L = [] then - 1
      else min (total L) (locationOf c (u_locations L) cmp))
   \<and> (sorted_wrt (\<lambda>a b. cmp b c < 0 \<longrightarrow> cmp a c < 0) (u_locations L) \<longrightarrow>
        0 \<le> locationOf c (u_locations L) cmp
        \<and> locationOf c (u_locations L) cmp \<le> int (length (u_locations L))
        \<and> (\<forall>j < nat (locationOf c (u_locations L) cmp). cmp (u_locations L ! j) c < 0)
        \<and> (\<forall>j. nat (locationOf c (u_locations L) cmp) \<le> j \<longrightarrow> j < length (u_locations L)
               \<longrightarrow> 0 \<le> cmp (u_locations L ! j) c))"
proof (intro conjI impI)
  show "locationFromCfi cmp L c =
     (if u_locations L = [] then - 1
      else min (total L) (locationOf c (u_locations L) cmp))"
    by (simp add: locationFromCfi_def Let_def min_def)
next
  assume s: "sorted_wrt (\<lambda>a b. cmp b c < 0 \<longrightarrow> cmp a c < 0) (u_locations L)"
  note ip = locationOf_insertion_point[where cmp = cmp and item = c, OF s]
  show "0 \<le> locationOf c (u_locations L) cmp" using ip by blast
  show "locationOf c (u_locations L) cmp \<le> int (length (u_locations L))" using ip by blast
  show "\<forall>j < nat (locationOf c (u_locations L) cmp). cmp (u_locations L ! j) c < 0"
    using ip by blast
  show "\<forall>j. nat (locationOf c (u_locations L) cmp) \<le> j \<longrightarrow> j < length (u_locations L)
               \<longrightarrow> 0 \<le> cmp (u_locations L ! j) c"
    using ip by blast
qed

text \<open>
  The instance: ranks 10, 20, 30 and the CFI of rank 15. The list is sorted, the result
  is 1, entry 0 lies below the CFI and entry 1 does not.
\<close>

theorem locationFromCfi_insertion_index_witness:
  "sorted_wrt (\<lambda>a b. compare_rank b 15 < 0 \<longrightarrow> compare_rank a 15 < 0) [10, 20, 30]
   \<and> locationFromCfi compare_rank (load_array [10, 20, 30] (Locations_constructor None)) 15 = 1
   \<and> compare_rank ([10, 20, 30] ! 0) 15 < 0
   \<and> 0 \<le> compare_rank ([10, 20, 30] ! 1) 15"
  using locationFromCfi_insertion_index[of compare_rank
      "load_array [10, 20, 30] (Locations_constructor None)" 15]
  by (simp add: load_array_fields compare_rank_def locationOf_def locationOf_between.simps)

text \<open>
  C2 as stated fails there: the nearest boundary preceding rank 15 is entry 0 (rank
  10), but the result is 1, the index of an entry that lies after the CFI.
\<close>

theorem locationFromCfi_preceding_counterexample:
  "locationFromCfi compare_rank (load_array [10, 20, 30] (Locations_constructor None)) 15 = 1
   \<and> compare_rank ([10, 20, 30] ! 1) 15 > 0"
  by (simp add: locationFromCfi_def load_array_fields compare_rank_def locationOf_def
      locationOf_between.simps)




text \<open>
  C4, amended. \<open>save\<close> writes JSON text that parses back to the stored strings, and \<open>load\<close>
  accepts that text or the array itself: in both cases the loaded object holds exactly
  the original sequence, with \<open>total\<close> the number of entries minus one. When the
  original \<open>total\<close> already was the number of entries minus one (as after \<open>generate\<close> or
  \<open>load\<close>), \<open>locationFromCfi\<close> and \<open>percentageFromLocation\<close> give the same results on the
  loaded object as on the original.
\<close>

theorem load_save_roundtrip:
  "JSON_parse (save L) = Some (u_locations L)
   \<and> load (JsonText (save L)) L' = Some (load_array (u_locations L) L')
   \<and> load (LocationArray (u_locations L)) L' = Some (load_array (u_locations L) L')
   \<and> u_locations (load_array (u_locations L) L') = u_locations L
   \<and> total (load_array (u_locations L) L') = int (length (u_locations L)) - 1
   \<and> (total L = int (length (u_locations L)) - 1 \<longrightarrow>
        locationFromCfi cmp (load_array (u_locations L) L') c = locationFromCfi cmp L c
        \<and> percentageFromLocation (load_array (u_locations L) L') loc
            = percentageFromLocation L loc)"
  by (simp add: load_def save_def JSON_parse_stringify load_array_fields
      locationFromCfi_def percentageFromLocation_def Let_def)

text \<open>
  The instance: two strings, one of them with a quotation mark, which \<open>save\<close> escapes;
  loading the saved text into a new object gives the object that loading the array gives.
\<close>

theorem load_save_roundtrip_witness:
  "total (load_array [cfi_a, cfi_b] (Locations_constructor None))
     = int (length (u_locations (load_array [cfi_a, cfi_b] (Locations_constructor None)))) - 1
   \<and> save (load_array [cfi_a, cfi_b] (Locations_constructor None))
       = [0x5B, 0x22] @ cfi_a @ [0x22, 0x2C, 0x22]
         @ [0x65, 0x70, 0x75, 0x62, 0x63, 0x66, 0x69, 0x28, 0x2F, 0x36, 0x2F, 0x32, 0x5B,
            0x5C, 0x22, 0x5D, 0x21, 0x2F, 0x34, 0x29] @ [0x22, 0x5D]
   \<and> load (JsonText (save (load_array [cfi_a, cfi_b] (Locations_constructor None))))
        (Locations_constructor None)
       = Some (load_array [cfi_a, cfi_b] (Locations_constructor None))
   \<and> locationFromCfi compare_length
        (load_array (u_locations (load_array [cfi_a, cfi_b] (Locations_constructor None)))
           (Locations_constructor None)) cfi_a
       = locationFromCfi compare_length
           (load_array [cfi_a, cfi_b] (Locations_constructor None)) cfi_a
   \<and> percentageFromLocation (load_array [cfi_a, cfi_b] (Locations_constructor None)) 1 = 1"
  using load_save_roundtrip[of "load_array [cfi_a, cfi_b] (Locations_constructor None)"
      "Locations_constructor None" compare_length cfi_a 1]
    example_save
  by (simp add: load_array_fields percentageFromLocation_def)

text \<open>
  C4 as stated fails for an object that was never generated or loaded: it has no
  entries and \<open>total\<close> 0, so \<open>percentageFromLocation\<close> is 0 everywhere; \<open>save\<close> writes the
  empty array, and after \<open>load\<close> of that text \<open>total\<close> is \<open>-1\<close> and the percentage of
  location 1 is \<open>-1\<close>.
\<close>

theorem load_save_new_index_counterexample:
  "load (JsonText (save (Locations_constructor None))) (Locations_constructor None)
     = Some ((Locations_constructor None)\<lparr>total := - 1\<rparr>)
   \<and> percentageFromLocation (Locations_constructor None :: js_string Locations) 1 = 0
   \<and> percentageFromLocation ((Locations_constructor None :: js_string Locations)\<lparr>total := - 1\<rparr>) 1
       = - 1"
  by (simp add: load_def save_def JSON_parse_stringify load_array_def
      percentageFromLocation_def Locations_constructor_def)

section \<open>Claims about the page list\<close>








section \<open>Claims about both indices\<close>

text \<open>
  C6, amended. On an index without entries, \<open>Locations.locationFromCfi\<close> and
  \<open>PageList.pageFromCfi\<close> return \<open>-1\<close>, and \<open>Locations.percentageFromCfi\<close> returns \<open>null\<close>:
  each of the three tests for the empty list before it searches.
\<close>

theorem empty_index_sentinels:
  "u_locations L = [] \<Longrightarrow> locations P = [] \<Longrightarrow>
     locationFromCfi cmp L c = - 1
     \<and> percentageFromCfi cmp L c = Null
     \<and> pageFromCfi cmp' P c' = Some (Fin (- 1))"
  by (simp add: locationFromCfi_def percentageFromCfi_def pageFromCfi_def)

text \<open>The instance: the two objects as their constructors leave them.\<close>

theorem empty_index_sentinels_witness:
  "u_locations (Locations_constructor None :: nat Locations) = []
   \<and> locations (PageList_constructor :: nat PageList) = []
   \<and> locationFromCfi compare_rank (Locations_constructor None) 7 = - 1
   \<and> percentageFromCfi compare_rank (Locations_constructor None) 7 = Null
   \<and> pageFromCfi compare_rank PageList_constructor 7 = Some (Fin (- 1))"
  using empty_index_sentinels[of "Locations_constructor None" PageList_constructor
      compare_rank 7 compare_rank 7]
  by (simp add: Locations_constructor_def PageList_constructor_def)

text \<open>
  C6 as stated fails for \<open>percentageFromCfi\<close>: on a new Locations object it returns
  \<open>null\<close>, which is not the number \<open>-1\<close>.
\<close>

theorem percentageFromCfi_empty_counterexample:
  "percentageFromCfi compare_rank (Locations_constructor None) 7 \<noteq> Percentage (- 1)"
  by (simp add: percentageFromCfi_def Locations_constructor_def)

end
